theory Spec2Isabelle
  imports Complex_Main
begin

section \<open>The PayPal statement plugin (ofxstatement/plugins/paypal.py)\<close>

text \<open>
  A shallow embedding of the plugin. Python exceptions are values: a function that can
  raise returns \<open>error + 'a\<close>, with \<open>Inl\<close> the exception that leaves the function.
  No function of the plugin catches an exception, so an \<open>Inl\<close> always reaches the caller.
  Strings are \<open>string\<close>: one \<open>char\<close> per code point of the plugin's default encoding
  iso8859-1.
\<close>

datatype error =
    IndexError
  | ValueError
  | TypeError
  | AttributeError
  | LocaleError
  | OSError

subsection \<open>Sequence helpers\<close>

text \<open>\<^verbatim>\<open>take(iterable, n)\<close>, \<^verbatim>\<open>drop(iterable, n)\<close> and \<^verbatim>\<open>head(iterable)\<close>;
  \<^verbatim>\<open>take(iterable, 1)[0]\<close> raises IndexError on an empty iterable.\<close>

definition take_n :: "'a list \<Rightarrow> nat \<Rightarrow> 'a list" where
  "take_n iterable n = take n iterable"

definition drop_n :: "'a list \<Rightarrow> nat \<Rightarrow> 'a list" where
  "drop_n iterable n = drop n iterable"

text \<open>Indexing a list with a non-negative index: \<^verbatim>\<open>xs[i]\<close>.\<close>

definition getitem :: "'a list \<Rightarrow> nat \<Rightarrow> error + 'a" where
  "getitem xs i = (if i < length xs then Inr (xs ! i) else Inl IndexError)"

definition head :: "'a list \<Rightarrow> error + 'a" where
  "head iterable = getitem (take_n iterable 1) 0"

text \<open>\<^verbatim>\<open>xs.index(x)\<close>: the position of the first occurrence, ValueError when there is none.\<close>

fun index_from :: "nat \<Rightarrow> 'a list \<Rightarrow> 'a \<Rightarrow> error + nat" where
  "index_from i [] x = Inl ValueError"
| "index_from i (y # ys) x = (if y = x then Inr i else index_from (Suc i) ys x)"

definition index :: "'a list \<Rightarrow> 'a \<Rightarrow> error + nat" where
  "index xs x = index_from 0 xs x"

text \<open>Exceptions propagate: the rest of a computation runs only on a value.\<close>

definition bind_err :: "error + 'a \<Rightarrow> ('a \<Rightarrow> error + 'b) \<Rightarrow> error + 'b" where
  "bind_err m f = (case m of Inl e \<Rightarrow> Inl e | Inr x \<Rightarrow> f x)"

text \<open>A list comprehension \<^verbatim>\<open>[f(x) for x in xs]\<close> whose element expression can raise.\<close>

fun map_err :: "('a \<Rightarrow> error + 'b) \<Rightarrow> 'a list \<Rightarrow> error + 'b list" where
  "map_err f [] = Inr []"
| "map_err f (x # xs) =
     (case f x of
        Inl e \<Rightarrow> Inl e
      | Inr y \<Rightarrow> (case map_err f xs of Inl e \<Rightarrow> Inl e | Inr ys \<Rightarrow> Inr (y # ys)))"

text \<open>A list comprehension \<^verbatim>\<open>[x for x in xs if c(x)]\<close> whose condition can raise.\<close>

fun filter_err :: "('a \<Rightarrow> error + bool) \<Rightarrow> 'a list \<Rightarrow> error + 'a list" where
  "filter_err c [] = Inr []"
| "filter_err c (x # xs) =
     (case c x of
        Inl e \<Rightarrow> Inl e
      | Inr b \<Rightarrow>
          (case filter_err c xs of
             Inl e \<Rightarrow> Inl e
           | Inr ys \<Rightarrow> Inr (if b then x # ys else ys)))"

subsection \<open>Strings\<close>

text \<open>\<^verbatim>\<open>s.replace(old, new)\<close>: every occurrence of \<open>old\<close>, left to right, without overlap.\<close>

function replace :: "string \<Rightarrow> string \<Rightarrow> string \<Rightarrow> string" where
  "replace [] old new = (if old = [] then new else [])"
| "replace (c # cs) old new =
     (if old = [] then new @ c # replace cs old new
      else if take (length old) (c # cs) = old
        then new @ replace (drop (length old) (c # cs)) old new
      else c # replace cs old new)"
  by pat_completeness auto
termination
  by (relation "measure (\<lambda>(s, old, new). length s)") auto

text \<open>\<^verbatim>\<open>s.strip()\<close> removes leading and trailing white space: among the code points below
  256 these are 9 to 13, 28 to 32, 0x85 and 0xA0.\<close>

definition is_space :: "char \<Rightarrow> bool" where
  "is_space c =
     (let n = (of_char c :: nat)
      in (9 \<le> n \<and> n \<le> 13) \<or> (28 \<le> n \<and> n \<le> 32) \<or> n = 0x85 \<or> n = 0xA0)"

definition strip :: "string \<Rightarrow> string" where
  "strip s = rev (dropWhile is_space (rev (dropWhile is_space s)))"

definition in_range :: "char \<Rightarrow> char \<Rightarrow> char \<Rightarrow> bool" where
  "in_range lo hi c = ((of_char lo :: nat) \<le> of_char c \<and> (of_char c :: nat) \<le> of_char hi)"

definition is_digit :: "char \<Rightarrow> bool" where
  "is_digit c = in_range CHR ''0'' CHR ''9'' c"

definition digit_val :: "char \<Rightarrow> nat" where
  "digit_val c = of_char c - of_char CHR ''0''"

text \<open>The number a string of decimal digits denotes.\<close>

definition decimal :: "string \<Rightarrow> nat" where
  "decimal ds = foldl (\<lambda>n c. 10 * n + digit_val c) 0 ds"

subsection \<open>Cells of a row\<close>

text \<open>
  A row is a Python list. \<^verbatim>\<open>parse_record\<close> tests its cells with \<^verbatim>\<open>is not None\<close>, so a cell is
  either None or a string. \<^verbatim>\<open>csv.reader\<close> yields every field as a string.
\<close>

datatype cell = PyNone | PyStr string

type_synonym row = "cell list"

text \<open>A cell in an f-string: \<^verbatim>\<open>f'{c}'\<close>.\<close>

fun format_cell :: "cell \<Rightarrow> string" where
  "format_cell PyNone = ''None''"
| "format_cell (PyStr s) = s"

text \<open>A string method called on a cell raises AttributeError on None.\<close>

fun str_method :: "(string \<Rightarrow> 'a) \<Rightarrow> cell \<Rightarrow> error + 'a" where
  "str_method f PyNone = Inl AttributeError"
| "str_method f (PyStr s) = Inr (f s)"

subsection \<open>Dates\<close>

text \<open>
  \<^verbatim>\<open>datetime.strptime(s, '%d/%m/%Y')\<close>. The library turns the format into the regular
  expression
  \<^verbatim>\<open>(?P<d>3[0-1]|[1-2]\d|0[1-9]|[1-9]| [1-9])/(?P<m>1[0-2]|0[1-9]|[1-9])/(?P<Y>\d\d\d\d)\<close>,
  matches it at the start of the string, raises ValueError when it does not match or when
  text remains after the match, and then builds the date, which raises ValueError for a
  year 0 or a day the month does not have. The result is the datetime at midnight of that
  date. Each group below lists the ways one alternative of the expression matches a prefix
  of the string, in the order the matcher tries them, with the text left over.
\<close>

record date =
  year :: nat
  month :: nat
  day :: nat

fun group_d :: "string \<Rightarrow> (string \<times> string) list" where
  "group_d (a # b # r) =
     (if a = CHR ''3'' \<and> in_range CHR ''0'' CHR ''1'' b then [([a, b], r)] else []) @
     (if in_range CHR ''1'' CHR ''2'' a \<and> is_digit b then [([a, b], r)] else []) @
     (if a = CHR ''0'' \<and> in_range CHR ''1'' CHR ''9'' b then [([a, b], r)] else []) @
     (if in_range CHR ''1'' CHR ''9'' a then [([a], b # r)] else []) @
     (if a = CHR '' '' \<and> in_range CHR ''1'' CHR ''9'' b then [([a, b], r)] else [])"
| "group_d [a] = (if in_range CHR ''1'' CHR ''9'' a then [([a], [])] else [])"
| "group_d [] = []"

fun group_m :: "string \<Rightarrow> (string \<times> string) list" where
  "group_m (a # b # r) =
     (if a = CHR ''1'' \<and> in_range CHR ''0'' CHR ''2'' b then [([a, b], r)] else []) @
     (if a = CHR ''0'' \<and> in_range CHR ''1'' CHR ''9'' b then [([a, b], r)] else []) @
     (if in_range CHR ''1'' CHR ''9'' a then [([a], b # r)] else [])"
| "group_m [a] = (if in_range CHR ''1'' CHR ''9'' a then [([a], [])] else [])"
| "group_m [] = []"

fun group_Y :: "string \<Rightarrow> (string \<times> string) list" where
  "group_Y (a # b # c # d # r) =
     (if is_digit a \<and> is_digit b \<and> is_digit c \<and> is_digit d then [([a, b, c, d], r)] else [])"
| "group_Y _ = []"

fun literal :: "char \<Rightarrow> string \<Rightarrow> string list" where
  "literal x (c # r) = (if c = x then [r] else [])"
| "literal x [] = []"

text \<open>The day and the month are each followed by a slash.\<close>

definition day_part :: "string \<Rightarrow> (string \<times> string) list" where
  "day_part s = [(d, r2). (d, r1) \<leftarrow> group_d s, r2 \<leftarrow> literal CHR ''/'' r1]"

definition month_part :: "string \<Rightarrow> (string \<times> string) list" where
  "month_part s = [(m, r2). (m, r1) \<leftarrow> group_m s, r2 \<leftarrow> literal CHR ''/'' r1]"

definition match_format :: "string \<Rightarrow> (string \<times> string \<times> string \<times> string) list" where
  "match_format s =
     [(d, m, y, r3).
        (d, r1) \<leftarrow> day_part s, (m, r2) \<leftarrow> month_part r1, (y, r3) \<leftarrow> group_Y r2]"

definition is_leap :: "nat \<Rightarrow> bool" where
  "is_leap y = (y mod 4 = 0 \<and> (y mod 100 \<noteq> 0 \<or> y mod 400 = 0))"

definition days_in_month :: "nat \<Rightarrow> nat \<Rightarrow> nat" where
  "days_in_month y m =
     (if m = 2 then (if is_leap y then 29 else 28)
      else if m = 4 \<or> m = 6 \<or> m = 9 \<or> m = 11 then 30
      else 31)"

text \<open>\<^verbatim>\<open>datetime.date(y, m, d)\<close>.\<close>

definition make_date :: "nat \<Rightarrow> nat \<Rightarrow> nat \<Rightarrow> error + date" where
  "make_date y m d =
     (if 1 \<le> y \<and> y \<le> 9999 \<and> 1 \<le> m \<and> m \<le> 12 \<and> 1 \<le> d \<and> d \<le> days_in_month y m
      then Inr \<lparr>year = y, month = m, day = d\<rparr>
      else Inl ValueError)"

text \<open>\<^verbatim>\<open>int(s)\<close> on a matched group: the day group may start with a space.\<close>

definition group_int :: "string \<Rightarrow> nat" where
  "group_int g = decimal (dropWhile (\<lambda>c. c = CHR '' '') g)"

definition strptime :: "cell \<Rightarrow> error + date" where
  "strptime c =
     (case c of
        PyNone \<Rightarrow> Inl TypeError
      | PyStr s \<Rightarrow>
          (case match_format s of
             [] \<Rightarrow> Inl ValueError
           | (d, m, y, rest) # _ \<Rightarrow>
               if rest \<noteq> [] then Inl ValueError
               else make_date (group_int y) (group_int m) (group_int d)))"

subsection \<open>Numbers\<close>

text \<open>
  \<^verbatim>\<open>float(s)\<close> on a string. A code point above 127 that is white space (0x85, 0xA0) is read
  as a space and any other as a character no number contains; underscores may stand
  between two digits only; white space (9 to 13, 32) is removed at both ends; what remains
  is a decimal literal with an optional sign, fraction and exponent, or one of inf,
  infinity and nan in any letter case. Anything else raises ValueError. The value of a
  decimal literal is the exact number it denotes: the rounding to binary floating point
  (and with it overflow to infinity and the sign of zero) is not part of the model.
\<close>

datatype pyfloat = Finite rat | PosInf | NegInf | NaN

definition to_ascii :: "char \<Rightarrow> char" where
  "to_ascii c =
     (if (of_char c :: nat) < 128 then c
      else if (of_char c :: nat) = 0x85 \<or> (of_char c :: nat) = 0xA0 then CHR '' ''
      else CHR ''?'')"

fun drop_underscores :: "char \<Rightarrow> string \<Rightarrow> string option" where
  "drop_underscores prev [] = (if prev = CHR ''_'' then None else Some [])"
| "drop_underscores prev (c # cs) =
     (if c = CHR ''_''
        then (if is_digit prev then drop_underscores c cs else None)
      else if prev = CHR ''_'' \<and> \<not> is_digit c then None
      else map_option ((#) c) (drop_underscores c cs))"

definition float_space :: "char \<Rightarrow> bool" where
  "float_space c = (let n = (of_char c :: nat) in (9 \<le> n \<and> n \<le> 13) \<or> n = 32)"

fun split_sign :: "string \<Rightarrow> bool \<times> string" where
  "split_sign [] = (False, [])"
| "split_sign (c # cs) =
     (if c = CHR ''-'' then (True, cs)
      else if c = CHR ''+'' then (False, cs)
      else (False, c # cs))"

definition lower :: "char \<Rightarrow> char" where
  "lower c = (if in_range CHR ''A'' CHR ''Z'' c then char_of ((of_char c :: nat) + 32) else c)"

definition parse_inf_or_nan :: "string \<Rightarrow> pyfloat option" where
  "parse_inf_or_nan s =
     (let (neg, r) = split_sign s; l = map lower r
      in if l = ''inf'' \<or> l = ''infinity'' then Some (if neg then NegInf else PosInf)
         else if l = ''nan'' then Some NaN
         else None)"

definition pow10 :: "int \<Rightarrow> rat" where
  "pow10 k = (if 0 \<le> k then 10 ^ nat k else 1 / 10 ^ nat (- k))"

text \<open>The exponent part of a literal: nothing, or e or E, an optional sign and digits.\<close>

definition exponent :: "string \<Rightarrow> int option" where
  "exponent s =
     (case s of
        [] \<Rightarrow> Some 0
      | c # cs \<Rightarrow>
          if c = CHR ''e'' \<or> c = CHR ''E''
          then (let (neg, ds) = split_sign cs
                in if ds \<noteq> [] \<and> list_all is_digit ds
                   then Some (if neg then - int (decimal ds) else int (decimal ds))
                   else None)
          else None)"

definition parse_decimal :: "string \<Rightarrow> pyfloat option" where
  "parse_decimal s =
     (let (neg, r) = split_sign s;
          ip = takeWhile is_digit r;
          r1 = dropWhile is_digit r;
          (fp, r2) = (case r1 of
                        [] \<Rightarrow> ([], [])
                      | c # cs \<Rightarrow>
                          if c = CHR ''.'' then (takeWhile is_digit cs, dropWhile is_digit cs)
                          else ([], r1))
      in if ip = [] \<and> fp = [] then None
         else (case exponent r2 of
                 None \<Rightarrow> None
               | Some e \<Rightarrow>
                   Some (Finite ((if neg then - 1 else 1) * of_nat (decimal (ip @ fp))
                                   * pow10 (e - int (length fp))))))"

definition py_float :: "string \<Rightarrow> error + pyfloat" where
  "py_float s =
     (let a = map to_ascii s
      in case (if CHR ''_'' \<in> set a then drop_underscores (CHR 0x00) a else Some a) of
           None \<Rightarrow> Inl ValueError
         | Some u \<Rightarrow>
             (let t = rev (dropWhile float_space (rev (dropWhile float_space u)))
              in case parse_decimal t of
                   Some x \<Rightarrow> Inr x
                 | None \<Rightarrow>
                     (case parse_inf_or_nan t of
                        Some x \<Rightarrow> Inr x
                      | None \<Rightarrow> Inl ValueError)))"

subsection \<open>The numeric locale of the process\<close>

text \<open>
  The state the plugin changes is the LC_NUMERIC locale of the process. A locale is known
  by its name; \<open>installed\<close> lists the locales the C library can switch to, each with the
  two fields of \<^verbatim>\<open>locale.localeconv()\<close> that \<^verbatim>\<open>locale.atof\<close> reads. \<open>lc_numeric\<close> is the
  locale in force, with its conventions. \<^verbatim>\<open>locale.getlocale\<close> reports the name in force and
  \<^verbatim>\<open>locale.setlocale\<close> takes such a name back; with None it only queries. Setting a locale
  that is not installed raises locale.Error and changes nothing.
\<close>

record localeconv =
  decimal_point :: string
  thousands_sep :: string

record process =
  installed :: "(string \<times> localeconv) list"
  lc_numeric :: "string \<times> localeconv"

definition getlocale :: "process \<Rightarrow> string" where
  "getlocale st = fst (lc_numeric st)"

definition setlocale :: "string option \<Rightarrow> process \<Rightarrow> error + process" where
  "setlocale loc st =
     (case loc of
        None \<Rightarrow> Inr st
      | Some name \<Rightarrow>
          (case map_of (installed st) name of
             None \<Rightarrow> Inl LocaleError
           | Some conv \<Rightarrow> Inr (st\<lparr>lc_numeric := (name, conv)\<rparr>)))"

text \<open>
  \<^verbatim>\<open>
  @contextmanager
  def scoped_setlocale(category, loc=None):
      orig = locale.getlocale(category)
      try:
          yield locale.setlocale(category, loc)
      finally:
          locale.setlocale(category, orig)
  \<close>
  The category is LC_NUMERIC at the only call. \<open>body\<close> is the block of the \<^verbatim>\<open>with\<close>
  statement. The \<^verbatim>\<open>finally\<close> clause runs whether \<^verbatim>\<open>setlocale\<close> or the body raised or not, and
  an exception raised in it replaces the pending one.
\<close>

definition scoped_setlocale ::
  "string option \<Rightarrow> (process \<Rightarrow> error + 'a) \<Rightarrow> process \<Rightarrow> (error + 'a) \<times> process" where
  "scoped_setlocale loc body st =
     (let orig = getlocale st;
          (r, st1) = (case setlocale loc st of
                        Inl e \<Rightarrow> (Inl e, st)
                      | Inr st' \<Rightarrow> (body st', st'))
      in case setlocale (Some orig) st1 of
           Inl e \<Rightarrow> (Inl e, st1)
         | Inr st2 \<Rightarrow> (r, st2))"

text \<open>
  \<^verbatim>\<open>locale.delocalize(string)\<close> and \<^verbatim>\<open>locale.atof(string)\<close> under the conventions in force:
  \<^verbatim>\<open>
  ts = conv['thousands_sep']
  if ts: string = string.replace(ts, '')
  dd = conv['decimal_point']
  if dd: string = string.replace(dd, '.')
  return float(string)
  \<close>
\<close>

definition delocalize :: "localeconv \<Rightarrow> string \<Rightarrow> string" where
  "delocalize conv s =
     (let ts = thousands_sep conv;
          s1 = (if ts \<noteq> [] then replace s ts [] else s);
          dd = decimal_point conv
      in if dd \<noteq> [] then replace s1 dd ''.'' else s1)"

definition locale_atof :: "string \<Rightarrow> process \<Rightarrow> error + pyfloat" where
  "locale_atof s st = py_float (delocalize (snd (lc_numeric st)) s)"

text \<open>
  \<^verbatim>\<open>
  def atof(string, loc=None):
      with scoped_setlocale(locale.LC_NUMERIC, loc):
          return locale.atof(string)
  \<close>
\<close>

definition atof :: "string \<Rightarrow> string option \<Rightarrow> process \<Rightarrow> (error + pyfloat) \<times> process" where
  "atof s loc st = scoped_setlocale loc (locale_atof s) st"

subsection \<open>The statement parser\<close>

text \<open>The class constant \<^verbatim>\<open>valid_header\<close>: the 25 column names of the export.\<close>

definition valid_header :: "string list" where
  "valid_header =
     [''Date'', ''Time'', ''Time Zone'', ''Name'', ''Type'', ''Status'', ''Currency'',
      ''Gross'', ''Fee'', ''Net'', ''From Email Address'', ''To Email Address'',
      ''Transaction ID'', ''Shipping Address'', ''Item Title'', ''Item ID'',
      ''Shipping and Handling Amount'', ''Reference Txn ID'', ''Receipt ID'', ''Balance'',
      ''Contact Phone Number'', ''Subject'', ''Note'', ''Balance Impact'', '''']"

text \<open>
  The fields of a parser object. \<open>lines\<close> is the text read from the file, held as the
  records \<^verbatim>\<open>csv.reader(self.lines, delimiter=',', quotechar='"', quoting=csv.QUOTE_ALL)\<close>
  decodes from it: one list of field strings per record, the header record first.
\<close>

record parser =
  account_id :: string
  currency :: string
  locale_name :: "string option"
  encoding :: "string option"
  analyze :: bool
  lines :: "string list list"

text \<open>A file: what opening it with an encoding and reading its lines gives.\<close>

type_synonym source_file = "string option \<Rightarrow> error + string list list"

text \<open>
  \<^verbatim>\<open>PayPalStatementParser.__init__(self, fin, account_id, currency, encoding=None,
  locale=None, analyze=False)\<close> stores its arguments and reads the file. The call of
  \<^verbatim>\<open>self.validate()\<close> is commented out in the source, so nothing here looks at the header.
\<close>

definition init ::
  "source_file \<Rightarrow> string \<Rightarrow> string \<Rightarrow> string option \<Rightarrow> string option \<Rightarrow> bool \<Rightarrow> error + parser" where
  "init fin acct cur enc loc an =
     bind_err (fin enc) (\<lambda>ls.
       Inr \<lparr>account_id = acct, currency = cur, locale_name = loc, encoding = enc,
            analyze = an, lines = ls\<rparr>)"

definition reader :: "parser \<Rightarrow> row list" where
  "reader p = map (map PyStr) (lines p)"

text \<open>\<^verbatim>\<open>header\<close>: \<^verbatim>\<open>[c.strip() for c in head(self.reader)]\<close>.\<close>

definition header :: "parser \<Rightarrow> error + string list" where
  "header p = bind_err (head (reader p)) (map_err (str_method strip))"

text \<open>
  \<^verbatim>\<open>
  def rows(self):
      rs = drop(self.reader, 1)
      currency_idx = self.valid_header.index("Currency")
      type_idx = self.valid_header.index("Type")
      return [r for r in rs if r[currency_idx] == self.currency
                            and r[type_idx] != "Bank Deposit to PP Account"]
  \<close>
  \<^verbatim>\<open>and\<close> evaluates its second operand only when the first is true.
\<close>

definition rows :: "parser \<Rightarrow> error + row list" where
  "rows p =
     (let rs = drop_n (reader p) 1
      in bind_err (index valid_header ''Currency'') (\<lambda>currency_idx.
         bind_err (index valid_header ''Type'') (\<lambda>type_idx.
         filter_err
           (\<lambda>r. bind_err (getitem r currency_idx) (\<lambda>c.
                  if c = PyStr (currency p)
                  then bind_err (getitem r type_idx) (\<lambda>t.
                         Inr (t \<noteq> PyStr ''Bank Deposit to PP Account''))
                  else Inr False))
           rs)))"

text \<open>
  \<^verbatim>\<open>
  def validate(self):
      expected = self.valid_header
      actual = self.header
      if expected != actual:
          raise ValueError(msg)
  \<close>
\<close>

definition validate :: "parser \<Rightarrow> error + unit" where
  "validate p =
     (let expected = valid_header
      in bind_err (header p) (\<lambda>actual.
           if expected \<noteq> actual then Inl ValueError else Inr ()))"

text \<open>\<^verbatim>\<open>split_records\<close> yields the rows one by one.\<close>

definition split_records :: "parser \<Rightarrow> error + row list" where
  "split_records p = rows p"

text \<open>
  The fields of a StatementLine that \<^verbatim>\<open>parse_record\<close> sets. \<open>date\<close> is the day of the datetime
  that \<^verbatim>\<open>strptime\<close> returns (its time is midnight).
\<close>

record stmt_line =
  line_id :: cell
  date :: date
  memo :: string
  payee :: string
  refnum :: cell
  amount :: pyfloat

text \<open>
  \<^verbatim>\<open>
  def parse_record(self, row):
      id_idx = self.valid_header.index("Transaction ID")
      ... (date_idx, name_idx, refnum_idx, amount_idx, payee_idx, title_idx, subject_idx)
      note_idx = self.valid_header.index("Note")
      memo = ''
      if row[note_idx] is not None:
          memo = row[note_idx]
      if row[subject_idx] is not None:
          memo = row[subject_idx]
      if row[title_idx] is not None:
          memo = row[title_idx]
      stmt_line = StatementLine()
      stmt_line.id = row[id_idx]
      stmt_line.date = datetime.strptime(row[date_idx], self.date_format)
      stmt_line.memo = memo
      stmt_line.payee = f'Name: {row[name_idx]} Email: {row[payee_idx]}'
      stmt_line.refnum = row[refnum_idx]
      stmt_line.amount = atof(row[amount_idx].replace(" ", "").replace(".","")
                                             .replace(",","."), self.locale)
      return stmt_line
  \<close>
  \<open>fields\<close> is everything before the call of \<^verbatim>\<open>atof\<close>, which is the only part that touches
  the locale of the process: it gives the id, date, memo, payee and refnum of the
  record, and the string handed to \<^verbatim>\<open>atof\<close>.
\<close>

definition fields ::
  "row \<Rightarrow> error + (cell \<times> date \<times> string \<times> string \<times> cell \<times> string)" where
  "fields row =
     bind_err (index valid_header ''Transaction ID'') (\<lambda>id_idx.
     bind_err (index valid_header ''Date'') (\<lambda>date_idx.
     bind_err (index valid_header ''Name'') (\<lambda>name_idx.
     bind_err (index valid_header ''Reference Txn ID'') (\<lambda>refnum_idx.
     bind_err (index valid_header ''Gross'') (\<lambda>amount_idx.
     bind_err (index valid_header ''To Email Address'') (\<lambda>payee_idx.
     bind_err (index valid_header ''Item Title'') (\<lambda>title_idx.
     bind_err (index valid_header ''Subject'') (\<lambda>subject_idx.
     bind_err (index valid_header ''Note'') (\<lambda>note_idx.
     bind_err (getitem row note_idx) (\<lambda>note.
     let memo0 = ''''; memo1 = (case note of PyNone \<Rightarrow> memo0 | PyStr s \<Rightarrow> s) in
     bind_err (getitem row subject_idx) (\<lambda>subject.
     let memo2 = (case subject of PyNone \<Rightarrow> memo1 | PyStr s \<Rightarrow> s) in
     bind_err (getitem row title_idx) (\<lambda>title.
     let memo3 = (case title of PyNone \<Rightarrow> memo2 | PyStr s \<Rightarrow> s) in
     bind_err (getitem row id_idx) (\<lambda>i.
     bind_err (getitem row date_idx) (\<lambda>d.
     bind_err (strptime d) (\<lambda>dt.
     bind_err (getitem row name_idx) (\<lambda>name.
     bind_err (getitem row payee_idx) (\<lambda>email.
     bind_err (getitem row refnum_idx) (\<lambda>ref.
     bind_err (getitem row amount_idx) (\<lambda>gross.
     bind_err (str_method (\<lambda>g. replace (replace (replace g '' '' '''') ''.'' '''') '','' ''.'') gross)
       (\<lambda>s.
     Inr (i, dt, memo3, ''Name: '' @ format_cell name @ '' Email: '' @ format_cell email,
          ref, s)))))))))))))))))))))"

definition parse_record :: "parser \<Rightarrow> row \<Rightarrow> process \<Rightarrow> (error + stmt_line) \<times> process" where
  "parse_record p row st =
     (case fields row of
        Inl e \<Rightarrow> (Inl e, st)
      | Inr (i, dt, m, py, ref, s) \<Rightarrow>
          (case atof s (locale_name p) st of
             (Inl e, st') \<Rightarrow> (Inl e, st')
           | (Inr a, st') \<Rightarrow>
               (Inr \<lparr>line_id = i, date = dt, memo = m, payee = py, refnum = ref,
                     amount = a\<rparr>, st')))"

subsection \<open>Settings\<close>

text \<open>
  \<^verbatim>\<open>
  def parse_bool(value):
      if value in ('True', 'true', '1'):
          return True
      if value in ('False', 'false', '0'):
          return False
      raise ValueError("Can't parse boolean value: %s" % value)
  \<close>
\<close>

definition parse_bool :: "string \<Rightarrow> error + bool" where
  "parse_bool v =
     (if v \<in> set [''True'', ''true'', ''1''] then Inr True
      else if v \<in> set [''False'', ''false'', ''0''] then Inr False
      else Inl ValueError)"

text \<open>
  \<^verbatim>\<open>
  def get_parser(self, fin):
      kwargs = {'encoding': 'iso8859-1'}
      if self.settings:
          if 'account_id' in self.settings: kwargs['account_id'] = self.settings.get('account_id')
          if 'currency' in self.settings: kwargs['currency'] = self.settings.get('currency')
          if 'locale' in self.settings: kwargs['locale'] = self.settings.get('locale')
          if 'encoding' in self.settings: kwargs['encoding'] = self.settings.get('encoding')
          if 'analyze' in self.settings:
              kwargs['analyze'] = parse_bool(self.settings.get('analyze'))
      return PayPalStatementParser(fin, **kwargs)
  \<close>
  The settings are the options of the plugin's configuration section, as pairs of a key and
  a string. The constructor has no default for \<^verbatim>\<open>account_id\<close> and \<^verbatim>\<open>currency\<close>: calling it
  without one of them raises TypeError before its body runs.
\<close>

definition get_parser :: "(string \<times> string) list \<Rightarrow> source_file \<Rightarrow> error + parser" where
  "get_parser settings fin =
     (let setting = (\<lambda>k. if settings \<noteq> [] then map_of settings k else None)
      in bind_err (case setting ''analyze'' of
                     None \<Rightarrow> Inr False
                   | Some v \<Rightarrow> parse_bool v) (\<lambda>an.
         case (setting ''account_id'', setting ''currency'') of
           (Some acct, Some cur) \<Rightarrow>
             init fin acct cur
               (case setting ''encoding'' of None \<Rightarrow> Some ''iso8859-1'' | Some e \<Rightarrow> Some e)
               (setting ''locale'') an
         | _ \<Rightarrow> Inl TypeError))"

subsection \<open>The specification's formulations\<close>

text \<open>
  The memo as the specification words it: Item Title whenever present, else Subject, else
  Note, else the empty string.
\<close>

definition memo_precedence :: "cell \<Rightarrow> cell \<Rightarrow> cell \<Rightarrow> string" where
  "memo_precedence title subject note =
     (case title of
        PyStr t \<Rightarrow> t
      | PyNone \<Rightarrow>
          (case subject of
             PyStr s \<Rightarrow> s
           | PyNone \<Rightarrow> (case note of PyStr n \<Rightarrow> n | PyNone \<Rightarrow> '''')))"

text \<open>
  The amount string as the specification words it: remove all space characters, remove all
  full stops, replace all commas by full stops.
\<close>

definition normalize_gross :: "string \<Rightarrow> string" where
  "normalize_gross g =
     map (\<lambda>c. if c = CHR '','' then CHR ''.'' else c)
       (filter (\<lambda>c. c \<noteq> CHR ''.'') (filter (\<lambda>c. c \<noteq> CHR '' '') g))"




text \<open>
  The locale in force is one of the installed locales, so that the name
  \<^verbatim>\<open>getlocale\<close> reports can be set again.
\<close>

definition consistent :: "process \<Rightarrow> bool" where
  "consistent st = (map_of (installed st) (fst (lc_numeric st)) = Some (snd (lc_numeric st)))"

text \<open>
  The numeric conventions a parse with locale argument \<open>loc\<close> runs under: those in force
  when the argument is None, those of the named locale when it is installed.
\<close>

definition numeric_conv :: "string option \<Rightarrow> process \<Rightarrow> localeconv option" where
  "numeric_conv loc st =
     (case loc of None \<Rightarrow> Some (snd (lc_numeric st)) | Some name \<Rightarrow> map_of (installed st) name)"

subsection \<open>Example data\<close>

text \<open>
  Concrete inputs for the closed theorems below: the numeric conventions of the C locale,
  of en_US and of de_DE as the C library defines them, a process that starts in the C
  locale, a 25-field record of an export, and a parser over a small file.
\<close>

definition c_conv :: localeconv where
  "c_conv = \<lparr>decimal_point = ''.'', thousands_sep = ''''\<rparr>"

definition en_conv :: localeconv where
  "en_conv = \<lparr>decimal_point = ''.'', thousands_sep = '',''\<rparr>"

definition de_conv :: localeconv where
  "de_conv = \<lparr>decimal_point = '','', thousands_sep = ''.''\<rparr>"

definition demo_process :: process where
  "demo_process =
     \<lparr>installed = [(''C'', c_conv), (''en_US'', en_conv), (''de_DE'', de_conv)],
      lc_numeric = (''C'', c_conv)\<rparr>"

definition demo_record :: "string list" where
  "demo_record =
     [''25/12/2023'', ''10:15:00'', ''CET'', ''Alice'', ''Payment'', ''Completed'', ''EUR'',
      ''1.234,56'', ''0,00'', ''1.234,56'', ''alice@example.org'', ''shop@example.org'',
      ''TX1'', '''', '''', '''', '''', ''REF1'', '''', ''0,00'', '''', ''Subj'', ''N'',
      ''Credit'', '''']"

definition demo_parser :: parser where
  "demo_parser =
     \<lparr>account_id = ''acct'', currency = ''EUR'', locale_name = None,
      encoding = Some ''iso8859-1'', analyze = False,
      lines =
        [map (\<lambda>c. '' '' @ c) valid_header,
         demo_record,
         demo_record[4 := ''Bank Deposit to PP Account''],
         demo_record[6 := ''USD''],
         demo_record[12 := ''TX2'', 7 := ''10,50'']]\<rparr>"

section \<open>Properties\<close>

subsection \<open>Auxiliary facts\<close>

lemma bind_err_simps [simp]:
  "bind_err (Inl e) f = Inl e"
  "bind_err (Inr x) f = f x"
  by (simp_all add: bind_err_def)

lemma valid_header_index:
  "index valid_header ''Date'' = Inr 0"
  "index valid_header ''Name'' = Inr 3"
  "index valid_header ''Type'' = Inr 4"
  "index valid_header ''Currency'' = Inr 6"
  "index valid_header ''Gross'' = Inr 7"
  "index valid_header ''To Email Address'' = Inr 11"
  "index valid_header ''Transaction ID'' = Inr 12"
  "index valid_header ''Item Title'' = Inr 14"
  "index valid_header ''Reference Txn ID'' = Inr 17"
  "index valid_header ''Subject'' = Inr 21"
  "index valid_header ''Note'' = Inr 22"
  by (simp_all add: index_def valid_header_def)

lemma filter_err_total:
  "\<forall>x \<in> set xs. c x = Inr (P x) \<Longrightarrow> filter_err c xs = Inr (filter P xs)"
  by (induction xs) auto

lemma map_err_strings:
  "map_err (str_method f) (map PyStr fs) = Inr (map f fs)"
  by (induction fs) simp_all

lemma header_lines:
  "header p = (case lines p of [] \<Rightarrow> Inl IndexError | h # _ \<Rightarrow> Inr (map strip h))"
  by (simp add: header_def head_def take_n_def getitem_def reader_def map_err_strings
           split: list.split)

lemma demo_record_length: "length demo_record = 25"
  by (simp add: demo_record_def)

lemma replace_char_delete: "replace s [x] [] = filter (\<lambda>c. c \<noteq> x) s"
  by (induction s) simp_all

lemma replace_char_char: "replace s [x] [y] = map (\<lambda>c. if c = x then y else c) s"
  by (induction s) simp_all

lemma replace_normalize:
  "replace (replace (replace g '' '' '''') ''.'' '''') '','' ''.'' = normalize_gross g"
  by (simp add: replace_char_delete replace_char_char normalize_gross_def)

lemma fields_short: "length row \<le> 22 \<Longrightarrow> fields row = Inl IndexError"
  by (simp add: fields_def valid_header_index getitem_def)

lemma fields_long:
  "22 < length row \<Longrightarrow>
   fields row =
     bind_err (strptime (row ! 0)) (\<lambda>dt.
     bind_err (str_method normalize_gross (row ! 7)) (\<lambda>s.
       Inr (row ! 12, dt, memo_precedence (row ! 14) (row ! 21) (row ! 22),
            ''Name: '' @ format_cell (row ! 3) @ '' Email: '' @ format_cell (row ! 11),
            row ! 17, s)))"
  by (cases "row ! 7")
     (auto simp: fields_def valid_header_index getitem_def Let_def memo_precedence_def
        replace_normalize bind_err_def split: cell.splits sum.splits)

lemma parse_record_short:
  "length row \<le> 22 \<Longrightarrow> parse_record p row st = (Inl IndexError, st)"
  by (simp add: parse_record_def fields_short)

lemma parse_record_long:
  "22 < length row \<Longrightarrow>
   parse_record p row st =
     (case strptime (row ! 0) of
        Inl e \<Rightarrow> (Inl e, st)
      | Inr dt \<Rightarrow>
          (case row ! 7 of
             PyNone \<Rightarrow> (Inl AttributeError, st)
           | PyStr g \<Rightarrow>
               (case atof (normalize_gross g) (locale_name p) st of
                  (Inl e, st') \<Rightarrow> (Inl e, st')
                | (Inr a, st') \<Rightarrow>
                    (Inr \<lparr>line_id = row ! 12, date = dt,
                          memo = memo_precedence (row ! 14) (row ! 21) (row ! 22),
                          payee = ''Name: '' @ format_cell (row ! 3) @ '' Email: ''
                                    @ format_cell (row ! 11),
                          refnum = row ! 17, amount = a\<rparr>, st'))))"
  by (simp add: parse_record_def fields_long split: sum.splits cell.splits prod.splits)

lemma parse_record_yields:
  assumes "fst (parse_record p row st) = Inr sl"
  shows "22 < length row \<and> line_id sl = row ! 12 \<and> refnum sl = row ! 17 \<and>
         strptime (row ! 0) = Inr (date sl) \<and>
         memo sl = memo_precedence (row ! 14) (row ! 21) (row ! 22) \<and>
         payee sl = ''Name: '' @ format_cell (row ! 3) @ '' Email: '' @ format_cell (row ! 11) \<and>
         (\<exists>g. row ! 7 = PyStr g \<and>
              fst (atof (normalize_gross g) (locale_name p) st) = Inr (amount sl))"
proof (cases "22 < length row")
  case False
  with assms show ?thesis by (simp add: parse_record_short)
next
  case True
  with assms show ?thesis
    by (auto simp: parse_record_long split: sum.splits cell.splits prod.splits)
qed



lemma atof_consistent:
  "consistent st \<Longrightarrow>
   atof s loc st =
     ((case numeric_conv loc st of
         None \<Rightarrow> Inl LocaleError
       | Some conv \<Rightarrow> py_float (delocalize conv s)), st)"
  by (auto simp: atof_def scoped_setlocale_def setlocale_def getlocale_def Let_def
        numeric_conv_def locale_atof_def consistent_def
           split: option.splits sum.splits prod.splits)

lemma demo_consistent: "consistent demo_process"
  by (simp add: consistent_def demo_process_def)

lemmas float_defs = py_float_def to_ascii_def float_space_def parse_decimal_def is_digit_def
  in_range_def exponent_def pow10_def decimal_def digit_val_def parse_inf_or_nan_def lower_def

lemmas date_defs = strptime_def match_format_def day_part_def month_part_def is_digit_def
  in_range_def group_int_def decimal_def digit_val_def make_date_def days_in_month_def
  is_leap_def

lemma strptime_demo: "strptime (PyStr ''25/12/2023'') = Inr \<lparr>year = 2023, month = 12, day = 25\<rparr>"
  by (simp add: date_defs)

lemma normalize_demo:
  "normalize_gross ''1.234,56'' = ''1234.56''" "normalize_gross ''10,50'' = ''10.50''"
  by (simp_all add: normalize_gross_def)

lemma float_demo:
  "py_float ''1234.56'' = Inr (Finite (123456 / 100))"
  "py_float ''10.50'' = Inr (Finite (1050 / 100))"
  "py_float ''123456'' = Inr (Finite 123456)"
  by (simp_all add: float_defs)

lemma demo_numeric_conv:
  "numeric_conv None demo_process = Some c_conv"
  "numeric_conv (Some ''de_DE'') demo_process = Some de_conv"
  "numeric_conv (Some ''en_US'') demo_process = Some en_conv"
  "numeric_conv (Some ''fr_FR'') demo_process = None"
  by (simp_all add: numeric_conv_def demo_process_def)

lemma delocalize_demo:
  "delocalize c_conv ''1234.56'' = ''1234.56''"
  "delocalize en_conv ''1234.56'' = ''1234.56''"
  "delocalize de_conv ''1234.56'' = ''123456''"
  by (simp_all add: delocalize_def c_conv_def en_conv_def de_conv_def)

lemma filter_err_raises:
  "x \<in> set xs \<Longrightarrow> c x = Inl e \<Longrightarrow> \<forall>y \<in> set xs. c y = Inl e \<or> (\<exists>b. c y = Inr b)
   \<Longrightarrow> filter_err c xs = Inl e"
  by (induction xs) (auto split: sum.splits)

lemma parse_record_dated:
  assumes "22 < length row" "row ! 0 = PyStr ''25/12/2023''" "row ! 7 = PyStr ''1.234,56''"
  shows "parse_record (demo_parser\<lparr>locale_name := loc\<rparr>) row demo_process =
     ((case numeric_conv loc demo_process of
         None \<Rightarrow> Inl LocaleError
       | Some conv \<Rightarrow>
           (case py_float (delocalize conv ''1234.56'') of
              Inl e \<Rightarrow> Inl e
            | Inr a \<Rightarrow>
               Inr \<lparr>line_id = row ! 12, date = \<lparr>year = 2023, month = 12, day = 25\<rparr>,
                    memo = memo_precedence (row ! 14) (row ! 21) (row ! 22),
                    payee = ''Name: '' @ format_cell (row ! 3) @ '' Email: ''
                              @ format_cell (row ! 11),
                    refnum = row ! 17, amount = a\<rparr>)), demo_process)"
  using assms
  by (simp add: parse_record_long strptime_demo normalize_demo atof_consistent demo_consistent
        split: option.splits sum.splits)

lemma demo_parser_locale: "demo_parser\<lparr>locale_name := None\<rparr> = demo_parser"
  by (simp add: demo_parser_def)

lemma demo_cells:
  "map PyStr demo_record ! 0 = PyStr ''25/12/2023''"
  "map PyStr demo_record ! 3 = PyStr ''Alice''"
  "map PyStr demo_record ! 7 = PyStr ''1.234,56''"
  "map PyStr demo_record ! 11 = PyStr ''shop@example.org''"
  "map PyStr demo_record ! 12 = PyStr ''TX1''"
  "map PyStr demo_record ! 14 = PyStr ''''"
  "map PyStr demo_record ! 17 = PyStr ''REF1''"
  "map PyStr demo_record ! 21 = PyStr ''Subj''"
  "map PyStr demo_record ! 22 = PyStr ''N''"
  by (simp_all add: demo_record_def)

lemma parse_demo:
  "parse_record demo_parser (map PyStr demo_record) demo_process =
     (Inr \<lparr>line_id = PyStr ''TX1'', date = \<lparr>year = 2023, month = 12, day = 25\<rparr>,
           memo = '''', payee = ''Name: Alice Email: shop@example.org'',
           refnum = PyStr ''REF1'', amount = Finite (123456 / 100)\<rparr>, demo_process)"
  using parse_record_dated [of "map PyStr demo_record" None]
  by (simp add: demo_parser_locale demo_cells demo_record_length demo_numeric_conv
        delocalize_demo float_demo memo_precedence_def)


lemma rows_well_shaped:
  assumes "\<forall>r \<in> set (drop 1 (lines p)). 6 < length r"
  shows "rows p =
           Inr (map (map PyStr)
                  (filter (\<lambda>r. r ! 6 = currency p \<and> r ! 4 \<noteq> ''Bank Deposit to PP Account'')
                     (drop 1 (lines p))))"
proof -
  let ?c = "\<lambda>r. bind_err (getitem r 6) (\<lambda>c.
                  if c = PyStr (currency p)
                  then bind_err (getitem r 4) (\<lambda>t.
                         Inr (t \<noteq> PyStr ''Bank Deposit to PP Account''))
                  else Inr False)"
  let ?P = "\<lambda>r. r ! 6 = PyStr (currency p) \<and> r ! 4 \<noteq> PyStr ''Bank Deposit to PP Account''"
  let ?rs = "drop 1 (map (map PyStr) (lines p))"
  have "\<forall>r \<in> set ?rs. ?c r = Inr (?P r)"
    using assms by (auto simp: getitem_def drop_map)
  then have "filter_err ?c ?rs = Inr (filter ?P ?rs)"
    by (rule filter_err_total)
  moreover have "filter ?P ?rs = map (map PyStr)
                  (filter (\<lambda>r. r ! 6 = currency p \<and> r ! 4 \<noteq> ''Bank Deposit to PP Account'')
                     (drop 1 (lines p)))"
    using assms
    by (auto simp: drop_map filter_map comp_def
             intro!: arg_cong[where f="map (map PyStr)"] filter_cong)
  ultimately show ?thesis
    by (simp add: rows_def valid_header_index reader_def drop_n_def)
qed

lemma strptime_iso: "strptime (PyStr ''2023-12-25'') = Inl ValueError"
  by (simp add: date_defs)

lemma parse_record_accepts:
  "(\<exists>sl. fst (parse_record p r st) = Inr sl) \<longleftrightarrow>
     (22 < length r \<and> (\<exists>d. strptime (r ! 0) = Inr d) \<and>
      (\<exists>g a. r ! 7 = PyStr g \<and> fst (atof (normalize_gross g) (locale_name p) st) = Inr a))"
proof (cases "22 < length r")
  case False
  then show ?thesis by (simp add: parse_record_short)
next
  case True
  then show ?thesis
    by (auto simp: parse_record_long split: sum.splits cell.splits prod.splits)
qed

lemma parse_record_lines: "parse_record (p\<lparr>lines := ls\<rparr>) row st = parse_record p row st"
  by (simp add: parse_record_def split: sum.splits)

lemma demo_rows:
  "rows demo_parser =
     Inr [map PyStr demo_record, map PyStr (demo_record[12 := ''TX2'', 7 := ''10,50''])]"
  using rows_well_shaped [of demo_parser]
  by (simp add: demo_parser_def demo_record_def)

lemma rows_short:
  assumes "r \<in> set (drop 1 (lines p))" and "length r < 7"
  shows "rows p = Inl IndexError"
proof -
  let ?c = "\<lambda>r. bind_err (getitem r 6) (\<lambda>c.
                  if c = PyStr (currency p)
                  then bind_err (getitem r 4) (\<lambda>t.
                         Inr (t \<noteq> PyStr ''Bank Deposit to PP Account''))
                  else Inr False)"
  let ?rs = "drop 1 (map (map PyStr) (lines p))"
  have 1: "map PyStr r \<in> set ?rs"
    using assms(1) by (simp add: drop_map)
  have 2: "?c (map PyStr r) = Inl IndexError"
    using assms(2) by (simp add: getitem_def)
  have 3: "\<forall>y \<in> set ?rs. ?c y = Inl IndexError \<or> (\<exists>b. ?c y = Inr b)"
    by (auto simp: getitem_def)
  have "filter_err ?c ?rs = Inl IndexError"
    using 1 2 3 by (rule filter_err_raises)
  then show ?thesis
    by (simp add: rows_def valid_header_index reader_def drop_n_def)
qed
















subsection \<open>The row filter\<close>

text \<open>
  C1: when every data record (every record after the header) has a Currency field, that is
  at least 7 fields, \<open>rows\<close> returns exactly the data records whose field 6 equals the
  configured currency and whose field 4 is not "Bank Deposit to PP Account", in their
  original order.
\<close>

theorem rows_filter:
  assumes "\<forall>r \<in> set (drop 1 (lines p)). 6 < length r"
  shows "rows p =
           Inr (map (map PyStr)
                  (filter (\<lambda>r. r ! 6 = currency p \<and> r ! 4 \<noteq> ''Bank Deposit to PP Account'')
                     (drop 1 (lines p))))"
  using assms by (rule rows_well_shaped)

theorem rows_filter_witness:
  "rows demo_parser =
     Inr [map PyStr demo_record, map PyStr (demo_record[12 := ''TX2'', 7 := ''10,50''])]"
  using rows_filter [of demo_parser]
  by (simp add: demo_parser_def demo_record_def)

subsection \<open>Header validation\<close>

text \<open>
  C7: \<open>validate\<close> succeeds exactly when the file has a first record whose fields, each
  stripped of surrounding white space, are the 25 entries of \<open>valid_header\<close> (the last of
  them the empty string); a different header raises ValueError, and a file with no record
  raises IndexError. The constructor does not call it: it succeeds whenever the file can be
  read, and \<open>rows\<close> does not depend on the header record.
\<close>

theorem validate_header:
  "validate p =
     (case lines p of
        [] \<Rightarrow> Inl IndexError
      | h # _ \<Rightarrow> if map strip h = valid_header then Inr () else Inl ValueError) \<and>
   length valid_header = 25 \<and> last valid_header = '''' \<and>
   ((\<exists>q. init fin acct cur enc loc an = Inr q) \<longleftrightarrow> (\<exists>ls. fin enc = Inr ls)) \<and>
   rows (p\<lparr>lines := h # rs\<rparr>) = rows (p\<lparr>lines := h' # rs\<rparr>)"
proof -
  have "validate p =
     (case lines p of
        [] \<Rightarrow> Inl IndexError
      | h # _ \<Rightarrow> if map strip h = valid_header then Inr () else Inl ValueError)"
    by (auto simp: validate_def header_lines split: list.split)
  moreover have "length valid_header = 25" "last valid_header = ''''"
    by (simp_all add: valid_header_def)
  moreover have "(\<exists>q. init fin acct cur enc loc an = Inr q) \<longleftrightarrow> (\<exists>ls. fin enc = Inr ls)"
    by (cases "fin enc") (simp_all add: init_def)
  moreover have "rows (p\<lparr>lines := h # rs\<rparr>) = rows (p\<lparr>lines := h' # rs\<rparr>)"
    by (simp add: rows_def reader_def drop_n_def)
  ultimately show ?thesis by simp
qed

theorem validate_header_witness:
  "validate demo_parser = Inr () \<and>
   validate (demo_parser\<lparr>lines := [butlast valid_header]\<rparr>) = Inl ValueError \<and>
   validate (demo_parser\<lparr>lines := []\<rparr>) = Inl IndexError"
  using validate_header [of demo_parser]
    validate_header [of "demo_parser\<lparr>lines := [butlast valid_header]\<rparr>"]
    validate_header [of "demo_parser\<lparr>lines := []\<rparr>"]
  by (simp add: demo_parser_def valid_header_def strip_def is_space_def)

subsection \<open>The analyze setting\<close>

text \<open>
  C9: \<open>parse_bool\<close> returns True exactly for "True", "true" and "1", False exactly for
  "False", "false" and "0", and raises ValueError for every other string; \<open>get_parser\<close>
  then raises that error whatever the file is, before the parser object exists and before
  the file is opened.
\<close>

theorem parse_bool_analyze:
  "(parse_bool v = Inr True \<longleftrightarrow> v \<in> {''True'', ''true'', ''1''}) \<and>
   (parse_bool v = Inr False \<longleftrightarrow> v \<in> {''False'', ''false'', ''0''}) \<and>
   (parse_bool v = Inl ValueError \<longleftrightarrow>
      v \<notin> {''True'', ''true'', ''1'', ''False'', ''false'', ''0''}) \<and>
   (map_of settings ''analyze'' = Some v \<longrightarrow>
      v \<notin> {''True'', ''true'', ''1'', ''False'', ''false'', ''0''} \<longrightarrow>
      get_parser settings fin = Inl ValueError)"
  by (auto simp: parse_bool_def get_parser_def)

theorem parse_bool_analyze_witness:
  "parse_bool ''yes'' = Inl ValueError \<and>
   get_parser [(''account_id'', ''acct''), (''currency'', ''EUR''), (''analyze'', ''yes'')]
     (\<lambda>enc. Inr [demo_record]) = Inl ValueError"
  using parse_bool_analyze [of "''yes''"
      "[(''account_id'', ''acct''), (''currency'', ''EUR''), (''analyze'', ''yes'')]"
      "\<lambda>enc. Inr [demo_record]"]
  by simp

subsection \<open>The memo\<close>






subsection \<open>Identity of the record\<close>

text \<open>
  C5, as amended: for every row that \<open>split_records\<close> yields (a row that passes the filter)
  and on which \<open>parse_record\<close> does not raise, the one record it returns has the row's
  Transaction ID (field 12) as its id and the row's Reference Txn ID (field 17) as its
  refnum, both as they stand; and \<open>parse_record\<close> returns a record only for a row with at
  least 23 fields whose Date parses and whose Gross is a string that \<open>atof\<close> accepts. The
  claim as written also promises a record for every row that passes the filter: a row with
  the Date "2023-12-25" passes the filter and \<open>parse_record\<close> raises ValueError on it.
\<close>

theorem accepted_row_identity:
  assumes "split_records p = Inr rs" and "r \<in> set rs"
    and "fst (parse_record p r st) = Inr sl"
  shows "line_id sl = r ! 12 \<and> refnum sl = r ! 17 \<and>
         valid_header ! 12 = ''Transaction ID'' \<and> valid_header ! 17 = ''Reference Txn ID'' \<and>
         22 < length r \<and> (\<exists>d. strptime (r ! 0) = Inr d) \<and>
         (\<exists>g a. r ! 7 = PyStr g \<and> fst (atof (normalize_gross g) (locale_name p) st) = Inr a)"
proof -
  have "\<exists>sl. fst (parse_record p r st) = Inr sl"
    using assms(3) by blast
  then have "22 < length r \<and> (\<exists>d. strptime (r ! 0) = Inr d) \<and>
      (\<exists>g a. r ! 7 = PyStr g \<and> fst (atof (normalize_gross g) (locale_name p) st) = Inr a)"
    by (simp only: parse_record_accepts)
  with parse_record_yields [OF assms(3)] show ?thesis
    by (simp add: valid_header_def)
qed

theorem accepted_row_identity_witness:
  "split_records demo_parser =
     Inr [map PyStr demo_record, map PyStr (demo_record[12 := ''TX2'', 7 := ''10,50''])] \<and>
   map_sum id line_id (fst (parse_record demo_parser (map PyStr demo_record) demo_process))
     = Inr (PyStr ''TX1'') \<and>
   map_sum id refnum (fst (parse_record demo_parser (map PyStr demo_record) demo_process))
     = Inr (PyStr ''REF1'')"
proof -
  let ?sl = "\<lparr>line_id = PyStr ''TX1'', date = \<lparr>year = 2023, month = 12, day = 25\<rparr>,
           memo = '''', payee = ''Name: Alice Email: shop@example.org'',
           refnum = PyStr ''REF1'', amount = Finite (123456 / 100)\<rparr>"
  have s: "split_records demo_parser =
     Inr [map PyStr demo_record, map PyStr (demo_record[12 := ''TX2'', 7 := ''10,50''])]"
    by (simp add: split_records_def demo_rows)
  have p: "fst (parse_record demo_parser (map PyStr demo_record) demo_process) = Inr ?sl"
    by (simp add: parse_demo)
  have "line_id ?sl = map PyStr demo_record ! 12 \<and> refnum ?sl = map PyStr demo_record ! 17"
    using accepted_row_identity [OF s _ p] by simp
  with s p show ?thesis
    by (simp add: demo_cells)
qed

theorem bad_date_row_counterexample:
  "split_records (demo_parser\<lparr>lines := [valid_header, demo_record[0 := ''2023-12-25'']]\<rparr>) =
     Inr [map PyStr (demo_record[0 := ''2023-12-25''])] \<and>
   parse_record (demo_parser\<lparr>lines := [valid_header, demo_record[0 := ''2023-12-25'']]\<rparr>)
     (map PyStr (demo_record[0 := ''2023-12-25''])) demo_process =
     (Inl ValueError, demo_process)"
proof -
  let ?p = "demo_parser\<lparr>lines := [valid_header, demo_record[0 := ''2023-12-25'']]\<rparr>"
  have "split_records ?p = Inr [map PyStr (demo_record[0 := ''2023-12-25''])]"
    using rows_well_shaped [of ?p]
    by (simp add: split_records_def demo_parser_def demo_record_def)
  moreover have "parse_record ?p (map PyStr (demo_record[0 := ''2023-12-25''])) demo_process =
     (Inl ValueError, demo_process)"
    by (simp add: parse_record_long demo_record_length strptime_iso)
  ultimately show ?thesis by simp
qed

subsection \<open>Short rows\<close>

text \<open>
  C6, as amended: the source has no check of the number of fields, and a short row fails
  only where an index is out of range. A data record with fewer than 7 fields makes \<open>rows\<close>
  raise IndexError; a row with fewer than 23 fields makes \<open>parse_record\<close> raise IndexError
  and leaves the locale of the process untouched. The claim as written fails for the other
  short rows: a record of 7 fields in another currency is dropped by the filter without an
  error, and a record of 24 fields that passes the filter is mapped to a record.
\<close>

theorem short_row_errors:
  "((\<exists>r \<in> set (drop 1 (lines p)). length r < 7) \<longrightarrow> rows p = Inl IndexError) \<and>
   (length row < 23 \<longrightarrow> parse_record p row st = (Inl IndexError, st))"
  using rows_short [of _ p] parse_record_short [of row p st]
  by auto

theorem short_row_errors_witness:
  "rows (demo_parser\<lparr>lines := [valid_header, demo_record, take 6 demo_record]\<rparr>)
     = Inl IndexError \<and>
   parse_record demo_parser (map PyStr (take 22 demo_record)) demo_process
     = (Inl IndexError, demo_process)"
  using short_row_errors [of "demo_parser\<lparr>lines := [valid_header, demo_record, take 6 demo_record]\<rparr>"
      "map PyStr (take 22 demo_record)" demo_process]
  by (simp add: demo_record_def parse_record_lines)

theorem short_row_counterexample:
  "length (butlast demo_record) = 24 \<and> length (take 7 (demo_record[6 := ''USD''])) = 7 \<and>
   rows (demo_parser\<lparr>lines := [valid_header, butlast demo_record,
                                 take 7 (demo_record[6 := ''USD''])]\<rparr>) =
     Inr [map PyStr (butlast demo_record)] \<and>
   parse_record (demo_parser\<lparr>lines := [valid_header, butlast demo_record,
                                 take 7 (demo_record[6 := ''USD''])]\<rparr>)
     (map PyStr (butlast demo_record)) demo_process =
     (Inr \<lparr>line_id = PyStr ''TX1'', date = \<lparr>year = 2023, month = 12, day = 25\<rparr>,
           memo = '''', payee = ''Name: Alice Email: shop@example.org'',
           refnum = PyStr ''REF1'', amount = Finite (123456 / 100)\<rparr>, demo_process)"
proof -
  let ?p = "demo_parser\<lparr>lines := [valid_header, butlast demo_record,
                                 take 7 (demo_record[6 := ''USD''])]\<rparr>"
  have "rows ?p = Inr [map PyStr (butlast demo_record)]"
    using rows_well_shaped [of ?p]
    by (simp add: demo_parser_def demo_record_def)
  moreover have "parse_record ?p (map PyStr (butlast demo_record)) demo_process =
     (Inr \<lparr>line_id = PyStr ''TX1'', date = \<lparr>year = 2023, month = 12, day = 25\<rparr>,
           memo = '''', payee = ''Name: Alice Email: shop@example.org'',
           refnum = PyStr ''REF1'', amount = Finite (123456 / 100)\<rparr>, demo_process)"
    using parse_record_dated [of "map PyStr (butlast demo_record)" None]
    by (simp add: parse_record_lines demo_parser_locale demo_record_def demo_numeric_conv
          delocalize_demo float_demo memo_precedence_def)
  ultimately show ?thesis
    by (simp add: demo_record_def)
qed

subsection \<open>The locale of the process\<close>



subsection \<open>The amount\<close>




subsection \<open>The date\<close>




end
